theory Spec2Isabelle
  imports Main "HOL-Library.Word" "HOL-Library.Sublist"
begin

section \<open>Wire types (synthetic\_response.proto)\<close>

text \<open>
  The enum \<open>ResponseStatusCode.StatusClass\<close> of the proto file, with the wire number of
  each value, and the message \<open>ResponseStatusCode\<close>. The two members of its \<open>oneof\<close>
  are optional properties of the TypeScript object (\<open>None\<close> is \<open>undefined\<close>).
\<close>

datatype ResponseStatusCode_StatusClass =
    STATUS_CLASS_UNSPECIFIED
  | STATUS_CLASS_1XX
  | STATUS_CLASS_2XX
  | STATUS_CLASS_3XX
  | STATUS_CLASS_4XX
  | STATUS_CLASS_5XX
  | STATUS_CLASS_ANY

fun StatusClass_number :: "ResponseStatusCode_StatusClass \<Rightarrow> int" where
  "StatusClass_number STATUS_CLASS_UNSPECIFIED = 0"
| "StatusClass_number STATUS_CLASS_1XX = 100"
| "StatusClass_number STATUS_CLASS_2XX = 200"
| "StatusClass_number STATUS_CLASS_3XX = 300"
| "StatusClass_number STATUS_CLASS_4XX = 400"
| "StatusClass_number STATUS_CLASS_5XX = 500"
| "StatusClass_number STATUS_CLASS_ANY = 1000"

record ResponseStatusCode =
  status_value :: "int option"
  status_class :: "ResponseStatusCode_StatusClass option"

section \<open>link\_utils: the status matcher\<close>

text \<open>
  \<open>checkStatusPassing(expected, actual)\<close>. The source reads \<open>expected\<close> through
  \<open>?.\<close>, so a missing expectation (\<open>None\<close>: \<open>undefined\<close> or \<open>null\<close>) has neither
  member and reaches the \<open>default\<close> branch of the switch.
\<close>

definition checkStatusPassing :: "ResponseStatusCode option \<Rightarrow> int \<Rightarrow> bool" where
  "checkStatusPassing expected actual =
     (case Option.bind expected status_value of
        Some v \<Rightarrow> v = actual
      | None \<Rightarrow>
         (case Option.bind expected status_class of
            Some STATUS_CLASS_1XX \<Rightarrow> actual \<ge> 100 \<and> actual \<le> 199
          | Some STATUS_CLASS_2XX \<Rightarrow> actual \<ge> 200 \<and> actual \<le> 299
          | Some STATUS_CLASS_3XX \<Rightarrow> actual \<ge> 300 \<and> actual \<le> 399
          | Some STATUS_CLASS_4XX \<Rightarrow> actual \<ge> 400 \<and> actual \<le> 499
          | Some STATUS_CLASS_5XX \<Rightarrow> actual \<ge> 500 \<and> actual \<le> 599
          | _ \<Rightarrow> False))"

section \<open>link\_utils: records of the link checker\<close>

text \<open>
  \<open>LinkIntermediate\<close>, the link record the page scraper produces, and the wire message
  \<open>SyntheticLinkResult\<close>. Optional members are options (\<open>None\<close> is \<open>undefined\<close>);
  \<open>status_code\<close> is the integer \<open>HTTPResponse.status()\<close> returned. The member
  \<open>screenshot_output\<close> is read by none of the functions below and is left out.
\<close>

record LinkIntermediate =
  target_uri :: string
  anchor_text :: string
  html_element :: string

record SyntheticLinkResult =
  link_passed :: "bool option"
  expected_status_code :: "ResponseStatusCode option"
  source_uri :: string
  target_uri :: string
  anchor_text :: string
  html_element :: string
  status_code :: "int option"
  error_type :: string
  error_message :: string
  link_start_time :: string
  link_end_time :: string
  is_origin :: "bool option"

datatype LinkOrder = LINK_ORDER_UNSPECIFIED | FIRST_N | RANDOM

datatype CaptureCondition = NONE | FAILING | ALL

record PerLinkOption =
  per_link_expected_status_code :: "ResponseStatusCode option"
  per_link_timeout_millis :: "int option"

record BrokenLinkCheckerOptions =
  origin_uri :: string
  link_limit :: "int option"
  link_order :: LinkOrder
  link_timeout_millis :: "int option"
  max_retries :: "int option"
  per_link_options :: "string \<rightharpoonup> PerLinkOption"
  total_synthetic_timeout_millis :: "int option"
  capture_condition :: CaptureCondition

type_synonym BaseError = "string \<times> string"

record BrokenLinksResultV1 =
  link_count :: "int option"
  passing_link_count :: "int option"
  failing_link_count :: "int option"
  unreachable_count :: "int option"
  status2xx_count :: "int option"
  status3xx_count :: "int option"
  status4xx_count :: "int option"
  status5xx_count :: "int option"
  options :: "BrokenLinkCheckerOptions option"
  origin_link_result :: "SyntheticLinkResult option"
  followed_link_results :: "SyntheticLinkResult list"
  execution_data_storage_path :: string
  errors :: "BaseError list"

section \<open>link\_utils: the result aggregator\<close>

text \<open>The operator \<open>x ?? d\<close> of the source.\<close>

definition nullish :: "'a option \<Rightarrow> 'a \<Rightarrow> 'a" where
  "nullish x d = (case x of None \<Rightarrow> d | Some v \<Rightarrow> v)"

text \<open>
  \<open>Math.floor(link.status_code! / 100)\<close>. An absent status code makes the quotient
  \<open>NaN\<close>, which is \<open>None\<close> here and equals no \<open>case\<close> label. On integers the floor
  of the quotient is \<open>div\<close>, which rounds towards minus infinity as \<open>Math.floor\<close> does.
\<close>

definition status_hundreds :: "int option \<Rightarrow> int option" where
  "status_hundreds c = map_option (\<lambda>n. n div 100) c"

text \<open>
  The object \<open>parseFollowedLinks\<close> starts from. The placeholders \<open>{}\<close> of
  \<open>options\<close> and \<open>origin_link_result\<close> are \<open>None\<close>.
\<close>

definition empty_result :: BrokenLinksResultV1 where
  "empty_result =
     \<lparr>link_count = Some 0, passing_link_count = Some 0, failing_link_count = Some 0,
      unreachable_count = Some 0, status2xx_count = Some 0, status3xx_count = Some 0,
      status4xx_count = Some 0, status5xx_count = Some 0, options = None,
      origin_link_result = None, followed_link_results = [],
      execution_data_storage_path = [], errors = []\<rparr>"

text \<open>The four statements of the loop body, in the order of the source.\<close>

definition store_link :: "SyntheticLinkResult \<Rightarrow> BrokenLinksResultV1 \<Rightarrow> BrokenLinksResultV1" where
  "store_link link r =
     (if is_origin link = Some True then r\<lparr>origin_link_result := Some link\<rparr>
      else r\<lparr>followed_link_results := followed_link_results r @ [link]\<rparr>)"

definition count_link :: "BrokenLinksResultV1 \<Rightarrow> BrokenLinksResultV1" where
  "count_link r = r\<lparr>link_count := Some (nullish (link_count r) 0 + 1)\<rparr>"

definition count_verdict :: "SyntheticLinkResult \<Rightarrow> BrokenLinksResultV1 \<Rightarrow> BrokenLinksResultV1" where
  "count_verdict link r =
     (if link_passed link = Some True
      then r\<lparr>passing_link_count := Some (nullish (passing_link_count r) 0 + 1)\<rparr>
      else r\<lparr>failing_link_count := Some (nullish (failing_link_count r) 0 + 1)\<rparr>)"

definition count_status :: "SyntheticLinkResult \<Rightarrow> BrokenLinksResultV1 \<Rightarrow> BrokenLinksResultV1" where
  "count_status link r =
     (let q = status_hundreds (status_code link) in
      if q = Some 2 then r\<lparr>status2xx_count := Some (nullish (status2xx_count r) 0 + 1)\<rparr>
      else if q = Some 3 then r\<lparr>status3xx_count := Some (nullish (status3xx_count r) 0 + 1)\<rparr>
      else if q = Some 4 then r\<lparr>status4xx_count := Some (nullish (status4xx_count r) 0 + 1)\<rparr>
      else if q = Some 5 then r\<lparr>status5xx_count := Some (nullish (status5xx_count r) 0 + 1)\<rparr>
      else r\<lparr>unreachable_count := Some (nullish (unreachable_count r) 0 + 1)\<rparr>)"

text \<open>One iteration: a link without a verdict is skipped by \<open>continue\<close>.\<close>

definition parse_link :: "BrokenLinksResultV1 \<Rightarrow> SyntheticLinkResult \<Rightarrow> BrokenLinksResultV1" where
  "parse_link r link =
     (if link_passed link = None then r
      else count_status link (count_verdict link (count_link (store_link link r))))"

definition parseFollowedLinks :: "SyntheticLinkResult list \<Rightarrow> BrokenLinksResultV1" where
  "parseFollowedLinks followed_links = foldl parse_link empty_result followed_links"



section \<open>link\_utils: the synthetic result\<close>

text \<open>
  A timestamp is the millisecond time value of a \<open>Date\<close>, the instant its ISO string
  denotes (\<open>new Date(s).getTime()\<close>, as the tests read \<open>start_time\<close> and
  \<open>end_time\<close> to compare them). The reading of the clock by \<open>new Date()\<close> is the
  argument \<open>now\<close>.
\<close>

type_synonym timestamp = int

record SyntheticResult =
  synthetic_broken_links_result_v1 :: BrokenLinksResultV1
  runtime_metadata :: "(string \<times> string) list"
  start_time :: timestamp
  end_time :: timestamp

text \<open>
  \<open>createSyntheticResult\<close>. The arguments \<open>bucket\<close> (the name of
  \<open>storageParams.bucket\<close>, when there is one) and \<open>path_to_execution\<close> (the value of
  \<open>getStoragePathToExecution(storageParams, options)\<close>, which Node's \<open>path.join\<close>
  builds) stand for the storage parameters.
\<close>

definition createSyntheticResult ::
  "timestamp \<Rightarrow> timestamp \<Rightarrow> (string \<times> string) list \<Rightarrow> BrokenLinkCheckerOptions \<Rightarrow>
   SyntheticLinkResult list \<Rightarrow> string option \<Rightarrow> string \<Rightarrow> BaseError list \<Rightarrow> SyntheticResult" where
  "createSyntheticResult now start_time' runtime_metadata' options' followed_links bucket
     path_to_execution errors' =
     (let broken_links_result =
        (parseFollowedLinks followed_links)
          \<lparr>options := Some options',
           errors := errors',
           execution_data_storage_path :=
             (case bucket of
                Some name \<Rightarrow> ''gs://'' @ name @ ''/'' @ path_to_execution
              | None \<Rightarrow> [])\<rparr>
      in \<lparr>synthetic_broken_links_result_v1 = broken_links_result,
          runtime_metadata = runtime_metadata',
          start_time = start_time',
          end_time = now\<rparr>)"

section \<open>link\_utils: the link selector\<close>

text \<open>
  \<open>Array.prototype.slice(start, end)\<close> on the elements of an array: a negative index
  counts from the end, and both indices are clamped to the array.
\<close>

definition relative_index :: "int \<Rightarrow> int \<Rightarrow> int" where
  "relative_index len i = (if i < 0 then max (len + i) 0 else min i len)"

definition js_slice :: "'a list \<Rightarrow> int \<Rightarrow> int \<Rightarrow> 'a list" where
  "js_slice xs start end' =
     (let len = int (length xs);
          k = relative_index len start;
          final = relative_index len end'
      in take (nat (max (final - k) 0)) (drop (nat k) xs))"

text \<open>
  The arrays of the selector are objects: an array is named by its address (its index
  in the store), and the store holds the elements of every array allocated so far. Arrays of links and the
  arrays of \<open>{value, sort}\<close> pairs of the shuffle are kept apart, each kind with its own
  addresses. The elements themselves are never written to and are values.
\<close>

record ('a, 'k) array_store =
  link_arrays :: "'a list list"
  keyed_arrays :: "('a \<times> 'k) list list"

definition new_link_array :: "'a list \<Rightarrow> ('a, 'k) array_store \<Rightarrow> ('a, 'k) array_store \<times> nat" where
  "new_link_array xs h = (h\<lparr>link_arrays := link_arrays h @ [xs]\<rparr>, length (link_arrays h))"

definition new_keyed_array ::
  "('a \<times> 'k) list \<Rightarrow> ('a, 'k) array_store \<Rightarrow> ('a, 'k) array_store \<times> nat" where
  "new_keyed_array xs h = (h\<lparr>keyed_arrays := keyed_arrays h @ [xs]\<rparr>, length (keyed_arrays h))"

text \<open>\<open>[...links]\<close>: a new array with the elements of \<open>links\<close>.\<close>

definition spread :: "nat \<Rightarrow> ('a, 'k) array_store \<Rightarrow> ('a, 'k) array_store \<times> nat" where
  "spread a h = new_link_array (link_arrays h ! a) h"

text \<open>
  \<open>.map((value) => ({ value, sort: Math.random() }))\<close>: a new array; the callback runs
  on the elements in order, and \<open>random i\<close> is the number the \<open>i\<close>-th call of
  \<open>Math.random\<close> returns.
\<close>

definition map_random_key ::
  "(nat \<Rightarrow> 'k) \<Rightarrow> nat \<Rightarrow> ('a, 'k) array_store \<Rightarrow> ('a, 'k) array_store \<times> nat" where
  "map_random_key random a h =
     (let xs = link_arrays h ! a
      in new_keyed_array (zip xs (map random [0..<length xs])) h)"

text \<open>
  \<open>.sort((a, b) => a.sort - b.sort)\<close>: sorts the array in place, by ascending key, and
  returns the same array. The sort of the language is stable, as \<open>sort_key\<close> is.
\<close>

definition sort_in_place ::
  "nat \<Rightarrow> ('a, 'k::linorder) array_store \<Rightarrow> ('a, 'k) array_store \<times> nat" where
  "sort_in_place b h =
     (h\<lparr>keyed_arrays := (keyed_arrays h)[b := sort_key snd (keyed_arrays h ! b)]\<rparr>, b)"

text \<open>\<open>.map(({ value }) => value)\<close>: a new array of links.\<close>

definition map_value :: "nat \<Rightarrow> ('a, 'k) array_store \<Rightarrow> ('a, 'k) array_store \<times> nat" where
  "map_value b h = new_link_array (map fst (keyed_arrays h ! b)) h"

text \<open>\<open>.slice(start, end)\<close>: a new array.\<close>

definition slice :: "nat \<Rightarrow> int \<Rightarrow> int \<Rightarrow> ('a, 'k) array_store \<Rightarrow> ('a, 'k) array_store \<times> nat" where
  "slice a start end' h = new_link_array (js_slice (link_arrays h ! a) start end') h"

text \<open>
  \<open>shuffleAndTruncate(links, link_limit, link_order)\<close>, with \<open>links\<close> the address of
  the input array; the result is the store after the call and the address of the array
  returned.
\<close>

definition shuffleAndTruncate ::
  "(nat \<Rightarrow> 'k::linorder) \<Rightarrow> nat \<Rightarrow> int \<Rightarrow> LinkOrder \<Rightarrow> ('a, 'k) array_store \<Rightarrow>
   ('a, 'k) array_store \<times> nat" where
  "shuffleAndTruncate random links link_limit' link_order' h =
     (let (h1, linksToFollow) =
            (if link_order' = RANDOM then
               (let (h1, copy) = spread links h;
                    (h2, keyed) = map_random_key random copy h1;
                    (h3, sorted) = sort_in_place keyed h2
                in map_value sorted h3)
             else spread links h)
      in slice linksToFollow 0 (link_limit' - 1) h1)"

text \<open>
  Example data: a store whose only array holds five links (by their target), and a
  sequence of random numbers, 3, 0, 2, 4, 1 for the first five calls.
\<close>

definition example_store :: "(string, nat) array_store" where
  "example_store =
     \<lparr>link_arrays = [[''link1'', ''link2'', ''link3'', ''link4'', ''link5'']],
      keyed_arrays = []\<rparr>"

definition example_random :: "nat \<Rightarrow> nat" where
  "example_random i = (7 * i + 3) mod 5"

section \<open>navigation\_func: the retrying fetcher\<close>

text \<open>
  What \<open>page.goto\<close> leaves in \<open>responseOrError\<close>: a response (with its
  \<open>status()\<close>), a caught \<open>Error\<close> (name and message), or \<open>null\<close>. The value is
  \<open>Undefined\<close> in the empty object \<open>{}\<close> that \<open>navigate\<close> starts from.
\<close>

datatype ResponseOrError = HTTPResponse int | Error string string | Null | Undefined

record CommonResponseProps =
  responseOrError :: ResponseOrError
  linkStartTime :: "string option"
  linkEndTime :: "string option"

record NavigateResponse = CommonResponseProps +
  passed :: bool
  retriesRemaining :: "int option"

definition empty_output :: CommonResponseProps where
  "empty_output = \<lparr>responseOrError = Undefined, linkStartTime = None, linkEndTime = None\<rparr>"

text \<open>
  The page is the outside world: \<open>fetchLink n target_uri timeout\<close> is what the
  \<open>n\<close>-th call of \<open>fetchLink\<close> on the page returns. The fetcher threads the number of
  calls made so far.
\<close>

type_synonym fetcher = "nat \<Rightarrow> string \<Rightarrow> int option \<Rightarrow> CommonResponseProps"

text \<open>
  \<open>isHTTPResponse(r) && checkStatusPassing(expected, r.status())\<close>, the verdict on one
  attempt: \<open>isHTTPResponse\<close> holds of an object with a member \<open>status\<close>, which a
  response has and \<open>null\<close> and the errors \<open>page.goto\<close> throws have not.
\<close>

definition attempt_passed :: "ResponseStatusCode \<Rightarrow> CommonResponseProps \<Rightarrow> bool" where
  "attempt_passed expected out =
     (case responseOrError out of
        HTTPResponse status \<Rightarrow> checkStatusPassing (Some expected) status
      | _ \<Rightarrow> False)"

function navigate_loop ::
  "fetcher \<Rightarrow> string \<Rightarrow> int option \<Rightarrow> ResponseStatusCode \<Rightarrow>
   nat \<Rightarrow> CommonResponseProps \<Rightarrow> int \<Rightarrow> bool \<Rightarrow> NavigateResponse \<times> nat" where
  "navigate_loop fetchLink uri timeout expected calls fetch_link_output remaining passed' =
     (if remaining > 0 \<and> \<not> passed' then
        (let out = fetchLink calls uri timeout
         in navigate_loop fetchLink uri timeout expected (Suc calls) out (remaining - 1)
              (attempt_passed expected out))
      else
        (\<lparr>responseOrError = responseOrError fetch_link_output,
          linkStartTime = linkStartTime fetch_link_output,
          linkEndTime = linkEndTime fetch_link_output,
          passed = passed',
          retriesRemaining = Some remaining\<rparr>, calls))"
  by pat_completeness auto
termination
  by (relation "measure (\<lambda>(f, u, t, e, c, out, remaining, p). nat remaining)") auto

declare navigate_loop.simps [simp del]

text \<open>The default of the parameter \<open>expected_status_code\<close>: the class 2xx.\<close>

definition default_expected_status_code :: ResponseStatusCode where
  "default_expected_status_code = \<lparr>status_value = None, status_class = Some STATUS_CLASS_2XX\<rparr>"

text \<open>
  \<open>options.per_link_options[link.target_uri]?.link_timeout_millis ??
  options.link_timeout_millis!\<close>: the timeout of the link when one is set, else that of
  the options.
\<close>

definition per_link_timeout :: "LinkIntermediate \<Rightarrow> BrokenLinkCheckerOptions \<Rightarrow> int option" where
  "per_link_timeout link options' =
     (case Option.bind (per_link_options options' (LinkIntermediate.target_uri link))
             per_link_timeout_millis of
        Some t \<Rightarrow> Some t
      | None \<Rightarrow> link_timeout_millis options')"

text \<open>
  \<open>navigate(page, link, options, expected_status_code)\<close>; \<open>calls\<close> is the number of
  calls of \<open>fetchLink\<close> on the page before, and the second component of the result the
  number after. Without \<open>options.max_retries\<close> the sum \<open>options.max_retries! + 1\<close>
  is \<open>NaN\<close> (\<open>None\<close> in \<open>retriesRemaining\<close>), which is not greater than 0: the loop
  is not entered.
\<close>

definition navigate ::
  "fetcher \<Rightarrow> nat \<Rightarrow> LinkIntermediate \<Rightarrow> BrokenLinkCheckerOptions \<Rightarrow>
   ResponseStatusCode option \<Rightarrow> NavigateResponse \<times> nat" where
  "navigate fetchLink calls link options' expected_status_code' =
     (case max_retries options' of
        None \<Rightarrow>
          (\<lparr>responseOrError = Undefined, linkStartTime = None, linkEndTime = None,
            passed = False, retriesRemaining = None\<rparr>, calls)
      | Some r \<Rightarrow>
          navigate_loop fetchLink (LinkIntermediate.target_uri link)
            (per_link_timeout link options')
            (nullish expected_status_code' default_expected_status_code)
            calls empty_output (r + 1) False)"

text \<open>
  Example data: options with only the number of retries set, a link, and a page whose
  first navigation times out, whose second answers 404 and whose later ones answer 200.
\<close>

definition retry_options :: "int \<Rightarrow> BrokenLinkCheckerOptions" where
  "retry_options r =
     \<lparr>origin_uri = ''https://example.com'', link_limit = None, link_order = FIRST_N,
      link_timeout_millis = Some 30000, max_retries = Some r, per_link_options = Map.empty,
      total_synthetic_timeout_millis = None, capture_condition = NONE\<rparr>"

definition example_link :: LinkIntermediate where
  "example_link =
     \<lparr>LinkIntermediate.target_uri = ''https://example.com/a'',
      LinkIntermediate.anchor_text = ''a'', LinkIntermediate.html_element = ''a''\<rparr>"

definition flaky_page :: fetcher where
  "flaky_page n uri timeout =
     \<lparr>responseOrError =
        (if n = 0 then Error ''TimeoutError'' ''Navigation timeout''
         else if n = 1 then HTTPResponse 404 else HTTPResponse 200),
      linkStartTime = None, linkEndTime = None\<rparr>"

section \<open>link\_utils: object names\<close>

text \<open>
  A string of the language is a sequence of 16-bit code units; the regular expressions
  of \<open>sanitizeObjectName\<close> have no \<open>u\<close> flag and work on code units. \<open>js\<close> gives
  the code units of an ASCII literal.
\<close>

type_synonym code_unit = "16 word"
type_synonym js_string = "code_unit list"

definition js :: "string \<Rightarrow> js_string" where
  "js s = map (\<lambda>c. of_nat (of_char c)) s"

text \<open>
  The class \<open>[\r\n\u007F-\u009F#\[\]*?:"<>|/]\<close> of \<open>invalidCharactersRegex\<close>, member
  by member in the order of the source.
\<close>

definition invalid_character :: "code_unit \<Rightarrow> bool" where
  "invalid_character c \<longleftrightarrow>
     c = 0x0D \<or> c = 0x0A \<or> (0x7F \<le> c \<and> c \<le> 0x9F) \<or> c = 0x23 \<or> c = 0x5B \<or> c = 0x5D \<or>
     c = 0x2A \<or> c = 0x3F \<or> c = 0x3A \<or> c = 0x22 \<or> c = 0x3C \<or> c = 0x3E \<or> c = 0x7C \<or>
     c = 0x2F"

text \<open>
  The class \<open>\s\<close>, which is also what \<open>trim\<close> strips: the white space and the line
  terminators of the language.
\<close>

definition white_space :: "code_unit \<Rightarrow> bool" where
  "white_space c \<longleftrightarrow>
     c = 0x09 \<or> c = 0x0A \<or> c = 0x0B \<or> c = 0x0C \<or> c = 0x0D \<or> c = 0x20 \<or> c = 0xA0 \<or>
     c = 0x1680 \<or> (0x2000 \<le> c \<and> c \<le> 0x200A) \<or> c = 0x2028 \<or> c = 0x2029 \<or>
     c = 0x202F \<or> c = 0x205F \<or> c = 0x3000 \<or> c = 0xFEFF"

definition wellKnownPrefix :: js_string where
  "wellKnownPrefix = js ''.well-known/acme-challenge/''"

text \<open>\<open>.replace(wellKnownPrefixRegex, '_')\<close>: the pattern is anchored at the start.\<close>

definition replace_prefix :: "js_string \<Rightarrow> js_string" where
  "replace_prefix s =
     (if take (length wellKnownPrefix) s = wellKnownPrefix
      then js ''_'' @ drop (length wellKnownPrefix) s
      else s)"

text \<open>\<open>.replace(invalidCharactersRegex, '_')\<close>: every member of the class, one by one.\<close>

definition replace_invalid :: "js_string \<Rightarrow> js_string" where
  "replace_invalid s = map (\<lambda>c. if invalid_character c then 0x5F else c) s"

definition trim :: "js_string \<Rightarrow> js_string" where
  "trim s = rev (dropWhile white_space (rev (dropWhile white_space s)))"

text \<open>\<open>.replace(/\s+/g, '_')\<close>: every maximal run of white space becomes one underscore.\<close>

function replace_spaces :: "js_string \<Rightarrow> js_string" where
  "replace_spaces [] = []"
| "replace_spaces (c # cs) =
     (if white_space c then 0x5F # replace_spaces (dropWhile white_space cs)
      else c # replace_spaces cs)"
  by pat_completeness auto
termination
  by (relation "measure length") (auto simp: length_dropWhile_le less_Suc_eq_le)

text \<open>
  \<open>sanitizeObjectName(inputString)\<close>; \<open>None\<close> is \<open>null\<close> or \<open>undefined\<close>, and the
  empty string is the third falsy input.
\<close>

definition sanitizeObjectName :: "js_string option \<Rightarrow> js_string" where
  "sanitizeObjectName inputString =
     (case inputString of
        None \<Rightarrow> js ''_''
      | Some s \<Rightarrow>
          if s = [] \<or> s = js ''.'' \<or> s = js ''..'' then js ''_''
          else replace_spaces (trim (replace_invalid (replace_prefix s))))"

section \<open>navigation\_func: the batch runner\<close>


text \<open>Where \<open>sequentialPromises\<close> is suspended, or how it ended.\<close>

datatype loop_state =
    AwaitOpen "LinkIntermediate list"                       \<comment> \<open>at \<open>await openNewPage\<close>\<close>
  | AwaitCheck LinkIntermediate "LinkIntermediate list"     \<comment> \<open>at \<open>await checkLink\<close>, links still to iterate\<close>
  | AwaitBlank "LinkIntermediate list"                      \<comment> \<open>at \<open>await gotoBlankPage\<close>\<close>
  | Returned bool
  | Threw string

text \<open>
  The promise \<open>checkLinks\<close> returns. It is fulfilled with the array
  \<open>followed_links\<close>; \<open>Fulfilled\<close> holds the results that were in it at that moment
  (a check under way at that moment still pushes its result to the same array later).
\<close>

datatype promise = Pending | Fulfilled "SyntheticLinkResult list" | Rejected string

text \<open>
  The variables of one call. \<open>timer_set\<close> tells whether the timer can still fire;
  \<open>checks_started\<close> logs the links \<open>checkLink\<close> has been called on.
\<close>

record run_state =
  timeLimitReached :: bool
  followed_links :: "SyntheticLinkResult list"
  sequentialPromises :: loop_state
  returned :: promise
  timer_set :: bool
  checks_started :: "LinkIntermediate list"

definition start :: "LinkIntermediate list \<Rightarrow> run_state" where
  "start links =
     \<lparr>timeLimitReached = False, followed_links = [], sequentialPromises = AwaitOpen links,
      returned = Pending, timer_set = True, checks_started = []\<rparr>"

text \<open>
  The first of the two raced promises to settle settles the race, once. A fulfilment
  with \<open>finished\<close> runs the callback of \<open>then\<close>: it sets \<open>timeLimitReached\<close>, clears
  the timer and returns \<open>followed_links\<close>. A rejection passes through \<open>then\<close>.
\<close>

definition race_fulfilled :: "bool \<Rightarrow> run_state \<Rightarrow> run_state" where
  "race_fulfilled finished s =
     (if returned s = Pending
      then s\<lparr>timeLimitReached := \<not> finished, timer_set := False,
             returned := Fulfilled (followed_links s)\<rparr>
      else s)"

definition race_rejected :: "string \<Rightarrow> run_state \<Rightarrow> run_state" where
  "race_rejected message s =
     (if returned s = Pending then s\<lparr>returned := Rejected message\<rparr> else s)"








section \<open>Properties of the status matcher\<close>

text \<open>
  C3: for a class band \<open>B\<close> of 1 to 5 (the class whose wire number is \<open>100 * B\<close>) and
  every integer \<open>actual\<close>, \<open>checkStatusPassing\<close> holds exactly when
  \<open>100 * B \<le> actual \<le> 100 * B + 99\<close>; for an exact value it is equality with that
  value, whatever class comes with it; for a missing expectation, one with neither
  member, or the unspecified class, it is false for every \<open>actual\<close>.
\<close>

theorem checkStatusPassing_bands:
  "(\<forall>B\<in>{1..5}. \<forall>c. StatusClass_number c = 100 * B \<longrightarrow>
      checkStatusPassing (Some \<lparr>status_value = None, status_class = Some c\<rparr>) actual
        = (100 * B \<le> actual \<and> actual \<le> 100 * B + 99))
   \<and> checkStatusPassing (Some \<lparr>status_value = Some v, status_class = cls\<rparr>) actual
        = (actual = v)
   \<and> \<not> checkStatusPassing None actual
   \<and> \<not> checkStatusPassing (Some \<lparr>status_value = None, status_class = None\<rparr>) actual
   \<and> \<not> checkStatusPassing
          (Some \<lparr>status_value = None, status_class = Some STATUS_CLASS_UNSPECIFIED\<rparr>) actual"
proof -
  have band: "checkStatusPassing (Some \<lparr>status_value = None, status_class = Some c\<rparr>) actual
        = (100 * B \<le> actual \<and> actual \<le> 100 * B + 99)"
    if "B \<in> {1..5}" "StatusClass_number c = 100 * B" for B c
    using that by (cases c) (auto simp: checkStatusPassing_def)
  have exact: "checkStatusPassing (Some \<lparr>status_value = Some v, status_class = cls\<rparr>) actual
        = (actual = v)"
    by (auto simp: checkStatusPassing_def)
  have unset: "\<not> checkStatusPassing None actual"
    "\<not> checkStatusPassing (Some \<lparr>status_value = None, status_class = None\<rparr>) actual"
    "\<not> checkStatusPassing
          (Some \<lparr>status_value = None, status_class = Some STATUS_CLASS_UNSPECIFIED\<rparr>) actual"
    by (simp_all add: checkStatusPassing_def)
  from band exact unset show ?thesis by blast
qed

text \<open>The band 3xx at 304 and at 400.\<close>

theorem checkStatusPassing_bands_witness:
  "(3::int) \<in> {1..5} \<and> StatusClass_number STATUS_CLASS_3XX = 100 * 3
   \<and> checkStatusPassing (Some \<lparr>status_value = None, status_class = Some STATUS_CLASS_3XX\<rparr>) 304
   \<and> \<not> checkStatusPassing (Some \<lparr>status_value = None, status_class = Some STATUS_CLASS_3XX\<rparr>) 400"
proof -
  have b: "(3::int) \<in> {1..5}" and n: "StatusClass_number STATUS_CLASS_3XX = 100 * 3"
    by simp_all
  from checkStatusPassing_bands [of 304] b n
  have "checkStatusPassing (Some \<lparr>status_value = None, status_class = Some STATUS_CLASS_3XX\<rparr>) 304
        = (100 * 3 \<le> (304::int) \<and> (304::int) \<le> 100 * 3 + 99)"
    by blast
  moreover from checkStatusPassing_bands [of 400] b n
  have "checkStatusPassing (Some \<lparr>status_value = None, status_class = Some STATUS_CLASS_3XX\<rparr>) 400
        = (100 * 3 \<le> (400::int) \<and> (400::int) \<le> 100 * 3 + 99)"
    by blast
  ultimately show ?thesis using b n by simp
qed

text \<open>
  C9: for every integer \<open>actual\<close>, \<open>checkStatusPassing\<close> is false when the expected
  status carries a class that is none of the five bands, that is \<open>STATUS_CLASS_ANY\<close>
  or \<open>STATUS_CLASS_UNSPECIFIED\<close>.
\<close>

theorem checkStatusPassing_other_class:
  "\<not> checkStatusPassing (Some \<lparr>status_value = None, status_class = Some STATUS_CLASS_ANY\<rparr>) actual
   \<and> \<not> checkStatusPassing
          (Some \<lparr>status_value = None, status_class = Some STATUS_CLASS_UNSPECIFIED\<rparr>) actual"
  by (simp add: checkStatusPassing_def)

text \<open>The class of all status codes accepts neither 200 nor 1000.\<close>

theorem checkStatusPassing_other_class_witness:
  "\<not> checkStatusPassing (Some \<lparr>status_value = None, status_class = Some STATUS_CLASS_ANY\<rparr>) 200
   \<and> \<not> checkStatusPassing (Some \<lparr>status_value = None, status_class = Some STATUS_CLASS_ANY\<rparr>) 1000"
  using checkStatusPassing_other_class [of 200] checkStatusPassing_other_class [of 1000]
  by blast

section \<open>Properties of the aggregator\<close>










section \<open>Properties of the synthetic result\<close>

text \<open>
  C8, as stated, fails: \<open>createSyntheticResult\<close> takes the reading of the clock as its
  \<open>end_time\<close> and adds nothing to it. Called with the start time
  2024-01-01T00:00:00.000Z while the clock still reads that instant, it returns an
  \<open>end_time\<close> equal to \<open>start_time\<close>, not after it.
\<close>

theorem createSyntheticResult_end_time_counterexample:
  "start_time (createSyntheticResult 1704067200000 1704067200000 [] (retry_options 0) []
       None [] []) = 1704067200000
   \<and> end_time (createSyntheticResult 1704067200000 1704067200000 [] (retry_options 0) []
       None [] []) = 1704067200000
   \<and> \<not> start_time (createSyntheticResult 1704067200000 1704067200000 [] (retry_options 0) []
          None [] [])
        < end_time (createSyntheticResult 1704067200000 1704067200000 [] (retry_options 0) []
          None [] [])"
  by (simp add: createSyntheticResult_def Let_def)

text \<open>
  C8, amended: the \<open>start_time\<close> of the report is the start time of the caller and
  its \<open>end_time\<close> is the reading of the clock when the report is built, as it is. So
  \<open>end_time\<close> is strictly after \<open>start_time\<close> exactly when the clock then reads a later
  instant than the start time, and is never before it when the clock has not gone back.
\<close>

theorem createSyntheticResult_end_time:
  "start_time (createSyntheticResult now started md opts links bucket path errs) = started
   \<and> end_time (createSyntheticResult now started md opts links bucket path errs) = now
   \<and> (start_time (createSyntheticResult now started md opts links bucket path errs)
        < end_time (createSyntheticResult now started md opts links bucket path errs))
       = (started < now)
   \<and> (start_time (createSyntheticResult now started md opts links bucket path errs)
        \<le> end_time (createSyntheticResult now started md opts links bucket path errs))
       = (started \<le> now)"
  by (simp add: createSyntheticResult_def Let_def)

text \<open>A report built 1500 milliseconds after the start.\<close>

theorem createSyntheticResult_end_time_witness:
  "end_time (createSyntheticResult 1704067201500 1704067200000 [] (retry_options 0) []
       None [] []) = 1704067201500
   \<and> start_time (createSyntheticResult 1704067201500 1704067200000 [] (retry_options 0) []
       None [] [])
     < end_time (createSyntheticResult 1704067201500 1704067200000 [] (retry_options 0) []
       None [] [])"
proof -
  note t = createSyntheticResult_end_time
    [of 1704067201500 1704067200000 "[]" "retry_options 0" "[]" None "[]" "[]"]
  from t have e: "end_time (createSyntheticResult 1704067201500 1704067200000 []
       (retry_options 0) [] None [] []) = 1704067201500"
    by (elim conjE)
  from t have "(start_time (createSyntheticResult 1704067201500 1704067200000 []
         (retry_options 0) [] None [] [])
       < end_time (createSyntheticResult 1704067201500 1704067200000 [] (retry_options 0) []
         None [] []))
      = ((1704067200000::int) < 1704067201500)"
    by (elim conjE)
  then have "start_time (createSyntheticResult 1704067201500 1704067200000 []
         (retry_options 0) [] None [] [])
       < end_time (createSyntheticResult 1704067201500 1704067200000 [] (retry_options 0) []
         None [] [])"
    by simp
  with e show ?thesis by blast
qed

section \<open>Properties of the retrying fetcher\<close>

text \<open>
  The loop of \<open>navigate\<close>, started with \<open>rem\<close> attempts left after \<open>c\<close> calls and
  ended after \<open>c'\<close>: every attempt but the last one made has failed, the result is that
  of the last attempt, and a result that has not passed has used every attempt.
\<close>

lemma navigate_loop_spec:
  "navigate_loop f u t e c out rem p = (resp, c') \<Longrightarrow>
     c \<le> c' \<and> int (c' - c) \<le> max rem 0 \<and> (p \<longrightarrow> c' = c) \<and>
     (\<forall>i. c \<le> i \<and> Suc i < c' \<longrightarrow> \<not> attempt_passed e (f i u t)) \<and>
     (c < c' \<longrightarrow> responseOrError resp = responseOrError (f (c' - 1) u t) \<and>
                 passed resp = attempt_passed e (f (c' - 1) u t)) \<and>
     (c' = c \<longrightarrow> responseOrError resp = responseOrError out \<and> passed resp = p) \<and>
     (\<not> passed resp \<longrightarrow> int (c' - c) = max rem 0) \<and>
     (\<not> p \<and> 0 < rem \<longrightarrow> c < c') \<and>
     retriesRemaining resp = Some (rem - int (c' - c))"
proof (induction f u t e c out rem p arbitrary: resp c' rule: navigate_loop.induct)
  case (1 f u t e c out rem p)
  show ?case
  proof (cases "rem > 0 \<and> \<not> p")
    case False
    with "1.prems" show ?thesis by (subst (asm) navigate_loop.simps) auto
  next
    case True
    let ?out = "f c u t"
    from True "1.prems"
    have rec: "navigate_loop f u t e (Suc c) ?out (rem - 1) (attempt_passed e ?out) = (resp, c')"
      by (subst (asm) navigate_loop.simps) (simp add: Let_def)
    note ih = "1.IH" [OF True refl rec]
    from ih have le: "Suc c \<le> c'" by (elim conjE)
    from ih have ih_bound: "int (c' - Suc c) \<le> max (rem - 1) 0" by (elim conjE)
    from ih have ih_stop: "attempt_passed e ?out \<longrightarrow> c' = Suc c" by (elim conjE)
    from ih have ih_early:
      "\<forall>i. Suc c \<le> i \<and> Suc i < c' \<longrightarrow> \<not> attempt_passed e (f i u t)" by (elim conjE)
    from ih have ih_last:
      "Suc c < c' \<longrightarrow> responseOrError resp = responseOrError (f (c' - 1) u t) \<and>
                 passed resp = attempt_passed e (f (c' - 1) u t)" by (elim conjE)
    from ih have ih_none:
      "c' = Suc c \<longrightarrow> responseOrError resp = responseOrError ?out \<and>
                 passed resp = attempt_passed e ?out" by (elim conjE)
    from ih have ih_all: "\<not> passed resp \<longrightarrow> int (c' - Suc c) = max (rem - 1) 0"
      by (elim conjE)
    from ih have ih_rr: "retriesRemaining resp = Some (rem - 1 - int (c' - Suc c))"
      by (elim conjE)
    have early: "\<not> attempt_passed e (f i u t)" if "c \<le> i" "Suc i < c'" for i
    proof (cases "i = c")
      case True
      with that ih_stop show ?thesis by auto
    next
      case False
      with that have "Suc c \<le> i" by simp
      with that ih_early show ?thesis by blast
    qed
    have last: "responseOrError resp = responseOrError (f (c' - 1) u t) \<and>
                 passed resp = attempt_passed e (f (c' - 1) u t)"
    proof (cases "c' = Suc c")
      case True
      with ih_none show ?thesis by simp
    next
      case False
      with le have "Suc c < c'" by simp
      with ih_last show ?thesis by blast
    qed
    have all: "\<not> passed resp \<longrightarrow> int (c' - c) = max rem 0"
      using ih_all le True by auto
    have bound: "int (c' - c) \<le> max rem 0"
      using ih_bound le True by auto
    have rr: "retriesRemaining resp = Some (rem - int (c' - c))"
      using ih_rr le by (simp add: of_nat_diff)
    have p1: "c \<le> c'" and p2: "p \<longrightarrow> c' = c" and p3: "c < c'" and p4: "c' \<noteq> c"
      using le True by simp_all
    from p1 bound p2 early last p4 all p3 rr show ?thesis by blast
  qed
qed

text \<open>
  C2: with \<open>max_retries = R \<ge> 0\<close>, \<open>navigate\<close> makes at least one and at most
  \<open>R + 1\<close> calls of \<open>fetchLink\<close>; no call before the last one passed, so it stops at
  the first attempt that passes; \<open>passed\<close> is the verdict on the last call; if that
  has not passed all \<open>R + 1\<close> calls were made; and \<open>responseOrError\<close> is exactly
  that of the last call.
\<close>

theorem navigate_attempts:
  assumes "max_retries opts = Some R" and "0 \<le> R"
    and "navigate fetchLink calls link opts expected = (resp, calls')"
  shows "calls < calls' \<and> int (calls' - calls) \<le> R + 1
     \<and> (\<forall>i. calls \<le> i \<and> i < calls' - 1 \<longrightarrow>
          \<not> attempt_passed (nullish expected default_expected_status_code)
              (fetchLink i (LinkIntermediate.target_uri link) (per_link_timeout link opts)))
     \<and> passed resp =
          attempt_passed (nullish expected default_expected_status_code)
            (fetchLink (calls' - 1) (LinkIntermediate.target_uri link) (per_link_timeout link opts))
     \<and> (\<not> passed resp \<longrightarrow> int (calls' - calls) = R + 1)
     \<and> responseOrError resp =
          responseOrError
            (fetchLink (calls' - 1) (LinkIntermediate.target_uri link) (per_link_timeout link opts))"
proof -
  from assms(1,3)
  have "navigate_loop fetchLink (LinkIntermediate.target_uri link) (per_link_timeout link opts)
          (nullish expected default_expected_status_code) calls empty_output (R + 1) False
        = (resp, calls')"
    by (simp add: navigate_def)
  note spec = navigate_loop_spec [OF this]
  from spec have lt: "calls < calls'" using assms(2) by (elim conjE) simp
  from spec have "int (calls' - calls) \<le> max (R + 1) 0" by (elim conjE)
  with assms(2) have bound: "int (calls' - calls) \<le> R + 1" by linarith
  from spec have early: "\<forall>i. calls \<le> i \<and> Suc i < calls' \<longrightarrow>
          \<not> attempt_passed (nullish expected default_expected_status_code)
              (fetchLink i (LinkIntermediate.target_uri link) (per_link_timeout link opts))"
    by (elim conjE)
  from spec lt have last: "responseOrError resp =
          responseOrError
            (fetchLink (calls' - 1) (LinkIntermediate.target_uri link) (per_link_timeout link opts))
      \<and> passed resp =
          attempt_passed (nullish expected default_expected_status_code)
            (fetchLink (calls' - 1) (LinkIntermediate.target_uri link) (per_link_timeout link opts))"
    by (elim conjE) simp
  from spec have "\<not> passed resp \<longrightarrow> int (calls' - calls) = max (R + 1) 0"
    by (elim conjE)
  with assms(2) have all: "\<not> passed resp \<longrightarrow> int (calls' - calls) = R + 1"
    by (simp add: max_def)
  from early have early': "\<forall>i. calls \<le> i \<and> i < calls' - 1 \<longrightarrow>
          \<not> attempt_passed (nullish expected default_expected_status_code)
              (fetchLink i (LinkIntermediate.target_uri link) (per_link_timeout link opts))"
    by (simp add: less_diff_conv)
  from lt bound early' last all show ?thesis by blast
qed


text \<open>Five retries on the flaky page: the third call passes and is the last.\<close>

theorem navigate_attempts_witness:
  "max_retries (retry_options 5) = Some 5 \<and> (0::int) \<le> 5
   \<and> navigate flaky_page 0 example_link (retry_options 5) None =
       (\<lparr>responseOrError = HTTPResponse 200, linkStartTime = None, linkEndTime = None,
         passed = True, retriesRemaining = Some 3\<rparr>, 3)
   \<and> int (3 - 0) \<le> 5 + 1
   \<and> \<not> attempt_passed (nullish None default_expected_status_code)
         (flaky_page 0 (LinkIntermediate.target_uri example_link)
            (per_link_timeout example_link (retry_options 5)))
   \<and> \<not> attempt_passed (nullish None default_expected_status_code)
         (flaky_page 1 (LinkIntermediate.target_uri example_link)
            (per_link_timeout example_link (retry_options 5)))"
proof -
  have h1: "max_retries (retry_options 5) = Some 5"
    by (simp add: retry_options_def)
  have h2: "(0::int) \<le> 5" by simp
  have h3: "navigate flaky_page 0 example_link (retry_options 5) None =
       (\<lparr>responseOrError = HTTPResponse 200, linkStartTime = None, linkEndTime = None,
         passed = True, retriesRemaining = Some 3\<rparr>, 3)"
    by (simp add: navigate_def navigate_loop.simps retry_options_def flaky_page_def
        attempt_passed_def checkStatusPassing_def nullish_def default_expected_status_code_def
        empty_output_def Let_def)
  note t = navigate_attempts [OF h1 h2 h3]
  from t have b: "int (3 - 0) \<le> 5 + 1" by (elim conjE)
  from t have "\<forall>i. 0 \<le> i \<and> i < 3 - 1 \<longrightarrow>
          \<not> attempt_passed (nullish None default_expected_status_code)
              (flaky_page i (LinkIntermediate.target_uri example_link)
                 (per_link_timeout example_link (retry_options 5)))"
    by (elim conjE)
  then have e: "\<not> attempt_passed (nullish None default_expected_status_code)
         (flaky_page 0 (LinkIntermediate.target_uri example_link)
            (per_link_timeout example_link (retry_options 5)))"
    "\<not> attempt_passed (nullish None default_expected_status_code)
         (flaky_page 1 (LinkIntermediate.target_uri example_link)
            (per_link_timeout example_link (retry_options 5)))"
    by simp_all
  from h1 h2 h3 b e show ?thesis by blast
qed

section \<open>Properties of the link selector\<close>

text \<open>A slice from 0 is a prefix; with a non-negative end it is \<open>take\<close>.\<close>

lemma js_slice_from_0: "js_slice xs 0 e = take (nat (relative_index (int (length xs)) e)) xs"
  by (simp add: js_slice_def relative_index_def Let_def)

lemma js_slice_prefix: "prefix (js_slice xs 0 e) xs"
  by (simp add: js_slice_from_0 take_is_prefix)

lemma js_slice_limit: "0 \<le> e \<Longrightarrow> js_slice xs 0 e = take (nat e) xs"
  by (simp add: js_slice_from_0 relative_index_def min_def)

text \<open>
  What the selector leaves in the store: the arrays that were there are as they were,
  and the array returned is a new one, the slice of an array as long as the input, which
  is the input itself unless the order is \<open>RANDOM\<close>.
\<close>

lemma shuffleAndTruncate_store:
  assumes "links < length (link_arrays h)"
    and "shuffleAndTruncate random links limit order h = (h', r)"
  shows "\<exists>followed. length (link_arrays h) \<le> r \<and> r < length (link_arrays h') \<and>
     take (length (link_arrays h)) (link_arrays h') = link_arrays h \<and>
     link_arrays h' ! r = js_slice followed 0 (limit - 1) \<and>
     length followed = length (link_arrays h ! links) \<and>
     (order \<noteq> RANDOM \<longrightarrow> followed = link_arrays h ! links)"
proof (cases "order = RANDOM")
  case False
  with assms show ?thesis
    by (auto simp: shuffleAndTruncate_def spread_def slice_def new_link_array_def nth_append)
next
  case True
  let ?xs = "link_arrays h ! links"
  let ?ys = "map fst (sort_key snd (zip ?xs (map random [0..<length ?xs])))"
  from True assms have "length (link_arrays h) \<le> r \<and> r < length (link_arrays h') \<and>
     take (length (link_arrays h)) (link_arrays h') = link_arrays h \<and>
     link_arrays h' ! r = js_slice ?ys 0 (limit - 1)"
    by (auto simp: shuffleAndTruncate_def spread_def slice_def new_link_array_def nth_append
        map_random_key_def new_keyed_array_def sort_in_place_def map_value_def Let_def)
  moreover have "length ?ys = length ?xs" by simp
  ultimately show ?thesis using True by blast
qed


text \<open>
  C6: for an input array of \<open>k\<close> links and a limit \<open>L \<ge> 1\<close>, in every order mode
  (\<open>FIRST_N\<close> and \<open>RANDOM\<close> among them), the array \<open>shuffleAndTruncate\<close> returns
  has length \<open>min k (L - 1)\<close>.
\<close>

theorem shuffleAndTruncate_length:
  assumes "links < length (link_arrays h)" and "1 \<le> limit"
    and "shuffleAndTruncate random links limit order h = (h', r)"
  shows "int (length (link_arrays h' ! r)) = min (int (length (link_arrays h ! links))) (limit - 1)"
proof -
  from shuffleAndTruncate_store [OF assms(1,3)] obtain followed where
    r: "link_arrays h' ! r = js_slice followed 0 (limit - 1)"
    and len: "length followed = length (link_arrays h ! links)"
    by blast
  from assms(2) have "js_slice followed 0 (limit - 1) = take (nat (limit - 1)) followed"
    by (simp add: js_slice_limit)
  with r len assms(2) show ?thesis by (auto simp: min_def)
qed

text \<open>Five links, limit 4, order \<open>RANDOM\<close>: three links are returned.\<close>

theorem shuffleAndTruncate_length_witness:
  "(0::nat) < length (link_arrays example_store) \<and> (1::int) \<le> 4
   \<and> shuffleAndTruncate example_random 0 4 RANDOM example_store =
       (\<lparr>link_arrays =
           [[''link1'', ''link2'', ''link3'', ''link4'', ''link5''],
            [''link1'', ''link2'', ''link3'', ''link4'', ''link5''],
            [''link2'', ''link5'', ''link3'', ''link1'', ''link4''],
            [''link2'', ''link5'', ''link3'']],
          keyed_arrays =
           [[(''link2'', 0), (''link5'', 1), (''link3'', 2), (''link1'', 3), (''link4'', 4)]]\<rparr>,
        3)
   \<and> int (length ([''link2'', ''link5'', ''link3''] :: string list))
       = min (int (length (link_arrays example_store ! 0))) (4 - 1)"
proof -
  have h1: "(0::nat) < length (link_arrays example_store)"
    by (simp add: example_store_def)
  have h2: "(1::int) \<le> 4" by simp
  have h3: "shuffleAndTruncate example_random 0 4 RANDOM example_store =
       (\<lparr>link_arrays =
           [[''link1'', ''link2'', ''link3'', ''link4'', ''link5''],
            [''link1'', ''link2'', ''link3'', ''link4'', ''link5''],
            [''link2'', ''link5'', ''link3'', ''link1'', ''link4''],
            [''link2'', ''link5'', ''link3'']],
          keyed_arrays =
           [[(''link2'', 0), (''link5'', 1), (''link3'', 2), (''link1'', 3), (''link4'', 4)]]\<rparr>,
        3)"
    by (simp add: shuffleAndTruncate_def spread_def slice_def new_link_array_def
        map_random_key_def new_keyed_array_def sort_in_place_def map_value_def Let_def
        example_store_def example_random_def js_slice_def relative_index_def upt_rec)
  from shuffleAndTruncate_length [OF h1 h2 h3] h1 h2 h3 show ?thesis by simp
qed

text \<open>
  C7, as stated for every limit, fails: the bound \<open>L - 1\<close> on the length holds from
  \<open>L = 1\<close> on only. With the limit 0 the end of the slice is -1, which counts from the
  end of the array: of five links the first four are returned.
\<close>

theorem shuffleAndTruncate_first_n_counterexample:
  "shuffleAndTruncate example_random 0 0 FIRST_N example_store =
       (\<lparr>link_arrays =
           [[''link1'', ''link2'', ''link3'', ''link4'', ''link5''],
            [''link1'', ''link2'', ''link3'', ''link4'', ''link5''],
            [''link1'', ''link2'', ''link3'', ''link4'']],
          keyed_arrays = []\<rparr>,
        2)
   \<and> [''link1'', ''link2'', ''link3'', ''link4'']
       \<noteq> take (nat (0 - 1)) (link_arrays example_store ! 0)
   \<and> \<not> int (length [''link1'', ''link2'', ''link3'', ''link4'']) \<le> 0 - 1"
  by (simp add: shuffleAndTruncate_def spread_def slice_def new_link_array_def Let_def
      example_store_def js_slice_def relative_index_def)

text \<open>
  C7, amended: with order \<open>FIRST_N\<close> and a limit \<open>L \<ge> 1\<close> the array returned holds
  exactly the first \<open>L - 1\<close> links of the input (all of them when there are fewer), in
  the original order. For every limit it is \<open>slice(0, L - 1)\<close> of the input, which is
  a prefix of the input. It is a new array, and every array of the store before the
  call, the input among them, holds after the call what it held before.
\<close>

theorem shuffleAndTruncate_first_n:
  assumes "links < length (link_arrays h)"
    and "shuffleAndTruncate random links limit FIRST_N h = (h', r)"
  shows "prefix (link_arrays h' ! r) (link_arrays h ! links)
     \<and> (1 \<le> limit \<longrightarrow> link_arrays h' ! r = take (nat (limit - 1)) (link_arrays h ! links))
     \<and> (\<forall>a<length (link_arrays h). link_arrays h' ! a = link_arrays h ! a)
     \<and> length (link_arrays h) \<le> r
     \<and> link_arrays h' ! r = js_slice (link_arrays h ! links) 0 (limit - 1)"
proof -
  from shuffleAndTruncate_store [OF assms] obtain followed where
    fresh: "length (link_arrays h) \<le> r"
    and old: "take (length (link_arrays h)) (link_arrays h') = link_arrays h"
    and r: "link_arrays h' ! r = js_slice followed 0 (limit - 1)"
    and same: "followed = link_arrays h ! links"
    by auto
  from r same have s: "link_arrays h' ! r = js_slice (link_arrays h ! links) 0 (limit - 1)"
    by simp
  from s have p: "prefix (link_arrays h' ! r) (link_arrays h ! links)"
    by (simp add: js_slice_prefix)
  from s have t: "1 \<le> limit \<longrightarrow> link_arrays h' ! r = take (nat (limit - 1)) (link_arrays h ! links)"
    by (simp add: js_slice_limit)
  have kept: "link_arrays h' ! a = link_arrays h ! a" if "a < length (link_arrays h)" for a
  proof -
    from that have "take (length (link_arrays h)) (link_arrays h') ! a = link_arrays h' ! a"
      by simp
    with old show ?thesis by simp
  qed
  from p t kept fresh s show ?thesis by blast
qed

text \<open>Five links, limit 3, order \<open>FIRST_N\<close>: the first two, and the input untouched.\<close>

theorem shuffleAndTruncate_first_n_witness:
  "(0::nat) < length (link_arrays example_store)
   \<and> shuffleAndTruncate example_random 0 3 FIRST_N example_store =
       (\<lparr>link_arrays =
           [[''link1'', ''link2'', ''link3'', ''link4'', ''link5''],
            [''link1'', ''link2'', ''link3'', ''link4'', ''link5''],
            [''link1'', ''link2'']],
          keyed_arrays = []\<rparr>,
        2)
   \<and> prefix [''link1'', ''link2''] (link_arrays example_store ! 0)
   \<and> [''link1'', ''link2''] = take (nat (3 - 1)) (link_arrays example_store ! 0)"
proof -
  have h1: "(0::nat) < length (link_arrays example_store)"
    by (simp add: example_store_def)
  have h2: "shuffleAndTruncate example_random 0 3 FIRST_N example_store =
       (\<lparr>link_arrays =
           [[''link1'', ''link2'', ''link3'', ''link4'', ''link5''],
            [''link1'', ''link2'', ''link3'', ''link4'', ''link5''],
            [''link1'', ''link2'']],
          keyed_arrays = []\<rparr>,
        2)"
    by (simp add: shuffleAndTruncate_def spread_def slice_def new_link_array_def Let_def
        example_store_def js_slice_def relative_index_def)
  from shuffleAndTruncate_first_n [OF h1 h2]
  have "prefix [''link1'', ''link2''] (link_arrays example_store ! 0)
     \<and> [''link1'', ''link2''] = take (nat (3 - 1)) (link_arrays example_store ! 0)"
    by (elim conjE) simp
  with h1 h2 show ?thesis by blast
qed

section \<open>Properties of the object names\<close>

text \<open>
  The two replacements after \<open>replace_invalid\<close> bring in no code unit but the
  underscore, which is not in the class of invalid characters.
\<close>

lemma underscore_valid: "\<not> invalid_character 0x5F"
  by (simp add: invalid_character_def)

lemma replace_invalid_valid: "c \<in> set (replace_invalid s) \<Longrightarrow> \<not> invalid_character c"
  by (auto simp: replace_invalid_def underscore_valid)

lemma trim_set: "c \<in> set (trim s) \<Longrightarrow> c \<in> set s"
  by (auto simp: trim_def dest!: set_dropWhileD)

lemma replace_spaces_set: "c \<in> set (replace_spaces s) \<Longrightarrow> c = 0x5F \<or> c \<in> set s"
  by (induction s rule: replace_spaces.induct) (auto split: if_splits dest: set_dropWhileD)

lemma sanitizeObjectName_valid:
  "c \<in> set (sanitizeObjectName inputString) \<Longrightarrow> \<not> invalid_character c"
proof (cases inputString)
  case None
  assume "c \<in> set (sanitizeObjectName inputString)"
  with None have "c = 0x5F" by (simp add: sanitizeObjectName_def js_def)
  then show ?thesis by (simp add: underscore_valid)
next
  case (Some s)
  assume c: "c \<in> set (sanitizeObjectName inputString)"
  show ?thesis
  proof (cases "s = [] \<or> s = js ''.'' \<or> s = js ''..''")
    case True
    with Some c have "c = 0x5F" by (auto simp: sanitizeObjectName_def js_def)
    then show ?thesis by (simp add: underscore_valid)
  next
    case False
    with Some c have "c \<in> set (replace_spaces (trim (replace_invalid (replace_prefix s))))"
      by (simp add: sanitizeObjectName_def)
    then have "c = 0x5F \<or> c \<in> set (replace_invalid (replace_prefix s))"
      by (auto dest: replace_spaces_set trim_set)
    then show ?thesis by (auto simp: underscore_valid dest: replace_invalid_valid)
  qed
qed

text \<open>
  The characters of the result: for every input, \<open>null\<close> and \<open>undefined\<close> among
  them, the result holds none of \<open>/ # [ ] * ? : " < > |\<close>, no carriage return, no
  newline and no control character of U+007F to U+009F; and the falsy inputs, \<open>.\<close> and
  \<open>..\<close> give the underscore.
\<close>

lemma sanitizeObjectName_characters:
  "(\<forall>c\<in>set (sanitizeObjectName inputString).
      c \<notin> {0x2F, 0x23, 0x5B, 0x5D, 0x2A, 0x3F, 0x3A, 0x22, 0x3C, 0x3E, 0x7C, 0x0D, 0x0A}
      \<and> \<not> (0x7F \<le> c \<and> c \<le> 0x9F))
   \<and> sanitizeObjectName None = js ''_''
   \<and> sanitizeObjectName (Some []) = js ''_''
   \<and> sanitizeObjectName (Some (js ''.'')) = js ''_''
   \<and> sanitizeObjectName (Some (js ''..'')) = js ''_''"
proof -
  have "c \<notin> {0x2F, 0x23, 0x5B, 0x5D, 0x2A, 0x3F, 0x3A, 0x22, 0x3C, 0x3E, 0x7C, 0x0D, 0x0A}
      \<and> \<not> (0x7F \<le> c \<and> c \<le> 0x9F)"
    if "c \<in> set (sanitizeObjectName inputString)" for c
    using sanitizeObjectName_valid [OF that] by (auto simp: invalid_character_def)
  moreover have "sanitizeObjectName None = js ''_''"
    "sanitizeObjectName (Some []) = js ''_''"
    "sanitizeObjectName (Some (js ''.'')) = js ''_''"
    "sanitizeObjectName (Some (js ''..'')) = js ''_''"
    by (simp_all add: sanitizeObjectName_def)
  ultimately show ?thesis by blast
qed

text \<open>
  The class of control characters of the source starts at U+007F: the escape character
  U+001B is neither in it nor white space, and stays.
\<close>

lemma sanitizeObjectName_keeps_escape: "sanitizeObjectName (Some [0x1B]) = [0x1B]"
  by (simp add: sanitizeObjectName_def js_def replace_prefix_def wellKnownPrefix_def
      replace_invalid_def invalid_character_def trim_def white_space_def)

text \<open>
  C10 does not hold of \<open>sanitizeObjectName\<close> where it says that the result is never
  \<open>.\<close> or \<open>..\<close>: the input is compared with \<open>.\<close> and \<open>..\<close> before it is trimmed, so
  a dot with a space before it, or two dots with a space after them, pass the test, and
  \<open>trim\<close> then leaves \<open>.\<close> and \<open>..\<close> themselves.
\<close>

theorem sanitizeObjectName_dot_after_trim:
  "sanitizeObjectName (Some (js '' .'')) = js ''.''
   \<and> sanitizeObjectName (Some (js ''.. '')) = js ''..''"
  by (simp add: sanitizeObjectName_def js_def replace_prefix_def wellKnownPrefix_def
      replace_invalid_def invalid_character_def trim_def white_space_def)

section \<open>Properties of the batch runner\<close>

text \<open>A settled promise stays as it is.\<close>

lemma race_fulfilled_settled: "returned s \<noteq> Pending \<Longrightarrow> race_fulfilled b s = s"
  by (simp add: race_fulfilled_def)

lemma race_rejected_settled: "returned s \<noteq> Pending \<Longrightarrow> race_rejected m s = s"
  by (simp add: race_rejected_def)







end
